theory Spec2Isabelle
  imports Complex_Main
begin

section \<open>The trainer of mnmt/trainer/trainer.py\<close>

text \<open>
  The class \<open>Trainer\<close> drives training and evaluation of a sequence-to-sequence model.
  The numeric framework (tensors, the model's forward pass, the optimizer, the learning
  rate scheduler) is not code of this module: it is taken as a parameter, a record of
  functions over an opaque state \<open>'w\<close> that holds the model's parameters and the state of
  optimizer and scheduler.

  Conventions of the embedding:
  \<^item> Python floats are real numbers; \<open>float('inf')\<close>, which the evaluation memory bank
    starts from, is the extra value \<open>PosInf\<close>. Rounding, overflow and NaN are left out.
  \<^item> Python ints are \<open>int\<close>; \<open>len(...)\<close> is a \<open>nat\<close>.
  \<^item> An exception is a value \<open>Inl e\<close>; the state at the raise is dropped.
  \<^item> Each \<open>print\<close> appends one abstract line to \<open>stdout\<close> (text formatting,
    \<open>math.exp\<close> of a loss and wall-clock times are left out of a line's content);
    each \<open>torch.save\<close> appends the file it writes to \<open>saved\<close>; each
    \<open>scheduler.step\<close> appends its argument to \<open>scheduler_steps\<close>.
  \<^item> \<open>self.task is "Multi"\<close> compares interned literals of one module, so it is
    equality of strings.
  \<^item> \<open>KeyboardInterrupt\<close> is an asynchronous signal from outside and is not modelled.
\<close>

subsection \<open>Values and errors\<close>

datatype error = AssertionError | AttributeError | ZeroDivisionError | IndexError

datatype pyfloat = Fin real | PosInf

text \<open>\<open>v <= f\<close> for a finite float \<open>v\<close> and a float \<open>f\<close> that may be \<open>inf\<close>.\<close>

fun le_float :: "real \<Rightarrow> pyfloat \<Rightarrow> bool" where
  "le_float v (Fin b) = (v \<le> b)"
| "le_float v PosInf = True"

text \<open>True division \<open>a / b\<close>; Python raises on a zero divisor, ints and floats alike.\<close>

definition truediv :: "real \<Rightarrow> real \<Rightarrow> error + real" where
  "truediv a b = (if b = 0 then Inl ZeroDivisionError else Inr (a / b))"

text \<open>\<open>a % b\<close> on ints: the sign follows the divisor, as \<open>mod\<close> on \<open>int\<close> does.\<close>

definition py_mod :: "int \<Rightarrow> int \<Rightarrow> error + int" where
  "py_mod a b = (if b = 0 then Inl ZeroDivisionError else Inr (a mod b))"

definition bind_result :: "error + 'a \<Rightarrow> ('a \<Rightarrow> error + 'b) \<Rightarrow> error + 'b" where
  "bind_result m f = (case m of Inl e \<Rightarrow> Inl e | Inr x \<Rightarrow> f x)"

subsection \<open>State\<close>

text \<open>
  \<open>best_valid_epoch\<close> and \<open>best_train_step\<close> start as \<open>float(-1)\<close> and are then
  assigned ints; \<open>best_valid_acc\<close> starts as \<open>float(-1)\<close> and is reset to the int 0.
\<close>

record EvalMemoryBank =
  best_valid_loss :: pyfloat
  acc_valid_loss :: pyfloat
  best_valid_acc :: real
  best_valid_epoch :: int
  best_train_step :: int
  early_stopping_patience :: int
  best_valid_loss_aux :: pyfloat
  best_valid_acc_aux :: real

record TrainMemoryBank =
  exp_num :: int
  total_epochs :: int
  n_epoch :: int
  n_steps :: int
  report_interval :: int

text \<open>The two attributes of the model that the trainer sets.\<close>

record Model =
  teacher_forcing_ratio :: real
  training :: bool

text \<open>
  A batch as \<open>evaluate\<close> reads it: \<open>ref\<close> is \<open>trg[1:].permute(1, 0)\<close>, one row of
  vocabulary indices per example, and \<open>ref_aux\<close> the same for the auxiliary target.
\<close>

record batch =
  ref :: "nat list list"
  ref_aux :: "nat list list"

text \<open>
  What a forward pass yields: \<open>pred\<close> is \<open>output[1:].argmax(2).permute(1, 0)\<close>,
  \<open>pred_aux\<close> the same for the auxiliary output, \<open>loss_item\<close> is
  \<open>self.loss_function(...).item()\<close> on the outputs and targets with the first position
  removed.
\<close>

record fwd_out =
  pred :: "nat list list"
  pred_aux :: "nat list list"
  loss_item :: real

text \<open>
  The framework: \<open>forward\<close> runs the model on a batch; \<open>optimize\<close> is one training
  step (\<open>zero_grad\<close>, forward pass, loss, \<open>backward\<close>, gradient clipping,
  \<open>optimizer.step\<close>) and yields the new state and \<open>loss.item()\<close>;
  \<open>scheduler_step\<close> is \<open>self.scheduler.step\<close>.
\<close>

record 'w framework =
  forward :: "'w \<Rightarrow> Model \<Rightarrow> batch \<Rightarrow> fwd_out"
  optimize :: "'w \<Rightarrow> Model \<Rightarrow> batch \<Rightarrow> 'w \<times> real"
  scheduler_step :: "'w \<Rightarrow> real \<Rightarrow> 'w"

datatype checkpoint = loss_model_seq2seq int | acc_model_seq2seq int

datatype line =
    RenewRecords
  | EarlyStopping
  | EpochTime int
  | EpochTrainLoss real
  | EpochValid real real
  | SeparatorOpen
  | Validating int
  | BetterValidLoss
  | BetterValidAcc
  | PatienceLine int int
  | ValLine real real
  | BestLine pyfloat real pyfloat int int
  | SeparatorClose
  | BetterValidAccAux
  | BestValAccAux real
  | TrainTFR real
  | ReportSteps int int int
  | ReportLoss real
  | ValHeader
  | TstHeader
  | EvalStart real
  | CorrectMain nat
  | CorrectAux nat
  | EvalEnd real

text \<open>
  \<open>valid_criterion\<close> is \<open>self.args_feeder.valid_criterion\<close>;
  \<open>trainer_early_stopping_patience\<close> is \<open>self.early_stopping_patience\<close>, the
  configured maximum (the field of that name in the memory bank is the counter);
  \<open>trg_itos\<close> and \<open>aux_itos\<close> are \<open>vocab.itos\<close> of the target and auxiliary fields;
  \<open>n_valid_examples\<close> and \<open>n_test_examples\<close> are
  \<open>len(self.data_container.dataset[...].examples)\<close>.
\<close>

record 'w Trainer =
  world :: 'w
  model :: Model
  valid_criterion :: string
  eval_memory_bank :: EvalMemoryBank
  trainer_early_stopping_patience :: int
  train_memory_bank :: TrainMemoryBank
  task :: string
  tfr :: real
  trg_itos :: "string list"
  aux_itos :: "string list"
  train_iter :: "batch list"
  valid_iter :: "batch list"
  test_iter :: "batch list"
  n_valid_examples :: nat
  n_test_examples :: nat
  stdout :: "line list"
  saved :: "checkpoint list"
  scheduler_steps :: "real list"

definition print :: "line \<Rightarrow> 'w Trainer \<Rightarrow> 'w Trainer" where
  "print l t = t\<lparr>stdout := stdout t @ [l]\<rparr>"

definition torch_save :: "checkpoint \<Rightarrow> 'w Trainer \<Rightarrow> 'w Trainer" where
  "torch_save c t = t\<lparr>saved := saved t @ [c]\<rparr>"

subsection \<open>Construction\<close>

text \<open>
  \<open>__init__\<close>, with the attributes of \<open>args_feeder\<close> it reads as arguments. A criterion
  other than ACC and LOSS leaves \<open>self.decay_mode\<close> unset, and reading it raises.
\<close>

definition Trainer_init ::
  "string \<Rightarrow> int \<Rightarrow> int \<Rightarrow> int \<Rightarrow> int \<Rightarrow> real \<Rightarrow> 'w \<Rightarrow> Model \<Rightarrow> string list \<Rightarrow> string list
    \<Rightarrow> batch list \<Rightarrow> batch list \<Rightarrow> batch list \<Rightarrow> nat \<Rightarrow> nat \<Rightarrow> error + 'w Trainer" where
  "Trainer_init criterion patience exp_no epochs interval multi_task_ratio w m trg_vocab aux_vocab
      trn vld tst n_vld n_tst =
    (if criterion \<noteq> ''ACC'' \<and> criterion \<noteq> ''LOSS'' then Inl AttributeError
     else Inr \<lparr>
       world = w,
       model = m,
       valid_criterion = criterion,
       eval_memory_bank = \<lparr>
         best_valid_loss = PosInf, acc_valid_loss = PosInf,
         best_valid_acc = -1, best_valid_epoch = -1, best_train_step = -1,
         early_stopping_patience = patience,
         best_valid_loss_aux = PosInf, best_valid_acc_aux = -1\<rparr>,
       trainer_early_stopping_patience = patience,
       train_memory_bank = \<lparr>
         exp_num = exp_no, total_epochs = epochs, n_epoch = 0, n_steps = 0,
         report_interval = interval\<rparr>,
       task = (if multi_task_ratio = 1 then ''Single-Main''
               else if multi_task_ratio = 0 then ''Single-Auxiliary''
               else ''Multi''),
       tfr = 0.8,
       trg_itos = trg_vocab,
       aux_itos = aux_vocab,
       train_iter = trn,
       valid_iter = vld,
       test_iter = tst,
       n_valid_examples = n_vld,
       n_test_examples = n_tst,
       stdout = [],
       saved = [],
       scheduler_steps = []\<rparr>)"

subsection \<open>The checkpoint policy\<close>

definition update_loss :: "real \<Rightarrow> 'w Trainer \<Rightarrow> 'w Trainer" where
  "update_loss valid_loss t =
    (if le_float valid_loss (best_valid_loss (eval_memory_bank t)) then
       (let t1 = print BetterValidLoss t;
            t2 = t1\<lparr>eval_memory_bank := (eval_memory_bank t1)\<lparr>best_valid_loss := Fin valid_loss\<rparr>\<rparr>;
            t3 = (if valid_criterion t2 = ''LOSS''
                  then torch_save (loss_model_seq2seq (exp_num (train_memory_bank t2))) t2
                  else t2)
        in t3\<lparr>eval_memory_bank := (eval_memory_bank t3)
                 \<lparr>early_stopping_patience := trainer_early_stopping_patience t3\<rparr>\<rparr>)
     else
       t\<lparr>eval_memory_bank := (eval_memory_bank t)
            \<lparr>early_stopping_patience :=
               max (early_stopping_patience (eval_memory_bank t) - 1) 0\<rparr>\<rparr>)"

definition update_acc :: "real \<Rightarrow> real \<Rightarrow> 'w Trainer \<Rightarrow> 'w Trainer" where
  "update_acc valid_loss valid_acc t =
    (if valid_acc \<ge> best_valid_acc (eval_memory_bank t) then
       (let t1 = print BetterValidAcc t;
            t2 = t1\<lparr>eval_memory_bank := (eval_memory_bank t1)
                    \<lparr>best_valid_acc := valid_acc,
                     acc_valid_loss := Fin valid_loss,
                     best_valid_epoch := n_epoch (train_memory_bank t1),
                     best_train_step := n_steps (train_memory_bank t1)\<rparr>\<rparr>
        in if valid_criterion t2 = ''ACC''
           then torch_save (acc_model_seq2seq (exp_num (train_memory_bank t2))) t2
           else t2)
     else t)"

definition update_report :: "real \<Rightarrow> real \<Rightarrow> 'w Trainer \<Rightarrow> 'w Trainer" where
  "update_report valid_loss valid_acc t =
    (let e = eval_memory_bank t;
         t1 = print (PatienceLine (early_stopping_patience e) (trainer_early_stopping_patience t)) t;
         t2 = print (ValLine valid_loss valid_acc) t1;
         t3 = print (BestLine (best_valid_loss e) (best_valid_acc e) (acc_valid_loss e)
                       (best_valid_epoch e) (best_train_step e)) t2
     in print SeparatorClose t3)"

definition update :: "real \<Rightarrow> real \<Rightarrow> 'w Trainer \<Rightarrow> error + 'w Trainer" where
  "update valid_loss valid_acc t =
    (if valid_criterion t \<noteq> ''LOSS'' \<and> valid_criterion t \<noteq> ''ACC'' then Inl AssertionError
     else
       (let t1 = print SeparatorOpen t;
            t2 = print (Validating (n_epoch (train_memory_bank t1))) t1;
            t3 = update_loss valid_loss t2;
            t4 = update_acc valid_loss valid_acc t3
        in Inr (update_report valid_loss valid_acc t4)))"

definition update_aux :: "real \<Rightarrow> 'w Trainer \<Rightarrow> 'w Trainer" where
  "update_aux valid_acc_aux t =
    (let t1 = (if valid_acc_aux \<ge> best_valid_acc_aux (eval_memory_bank t)
               then print BetterValidAccAux t else t)
     in print (BestValAccAux (best_valid_acc_aux (eval_memory_bank t1))) t1)"

subsection \<open>Exact-match accuracy\<close>

text \<open>
  The inner loop of \<open>matching\<close>: the tokens of one row up to the first \<open><eos>\<close>.
  An index outside the vocabulary raises, but only if the loop reaches it.
\<close>

fun decode :: "string list \<Rightarrow> nat list \<Rightarrow> error + string list" where
  "decode itos [] = Inr []"
| "decode itos (t # ts) =
    (if t < length itos then
       (let tok = itos ! t in
        if tok = ''<eos>'' then Inr []
        else bind_result (decode itos ts) (\<lambda>toks. Inr (tok # toks)))
     else Inl IndexError)"

text \<open>
  The outer loop, over the rows of \<open>pred\<close>; \<open>ref[j, :]\<close> raises when \<open>ref\<close> has no
  row \<open>j\<close>. \<open>''.join\<close> is \<open>concat\<close>.
\<close>

fun matching_rows :: "nat list list \<Rightarrow> nat list list \<Rightarrow> string list \<Rightarrow> nat \<Rightarrow> error + nat" where
  "matching_rows [] rs itos tally = Inr tally"
| "matching_rows (p # ps) rs itos tally =
    bind_result (decode itos p) (\<lambda>pred_j_toks.
      case rs of
        [] \<Rightarrow> Inl IndexError
      | r # rs' \<Rightarrow>
          bind_result (decode itos r) (\<lambda>ref_j_toks.
            matching_rows ps rs' itos
              (if concat pred_j_toks = concat ref_j_toks then tally + 1 else tally)))"

definition matching :: "nat list list \<Rightarrow> nat list list \<Rightarrow> string list \<Rightarrow> error + nat" where
  "matching prd rf itos = matching_rows prd rf itos 0"

subsection \<open>The evaluation pass\<close>

text \<open>
  The loop of \<open>evaluate\<close> over the batches of the iterator, with the accumulators
  \<open>epoch_loss\<close>, \<open>correct\<close> and \<open>correct_aux\<close>. The model is called in the state
  the trainer has put it in.
\<close>

fun evaluate_loop ::
  "'w framework \<Rightarrow> 'w Trainer \<Rightarrow> batch list \<Rightarrow> real \<times> nat \<times> nat \<Rightarrow> error + real \<times> nat \<times> nat" where
  "evaluate_loop fw t [] acc = Inr acc"
| "evaluate_loop fw t (b # bs) (epoch_loss, correct, correct_aux) =
    (let out = forward fw (world t) (model t) b in
     bind_result (matching (pred out) (ref b) (trg_itos t)) (\<lambda>m.
     bind_result (if task t = ''Multi''
                  then matching (pred_aux out) (ref_aux b) (aux_itos t)
                  else Inr 0) (\<lambda>m_aux.
       evaluate_loop fw t bs (epoch_loss + loss_item out, correct + m, correct_aux + m_aux))))"

definition evaluate ::
  "'w framework \<Rightarrow> bool \<Rightarrow> 'w Trainer \<Rightarrow> error + 'w Trainer \<times> real \<times> real \<times> real" where
  "evaluate fw is_test t =
    (let t1 = t\<lparr>model := (model t)\<lparr>training := False\<rparr>\<rparr>;
         t2 = t1\<lparr>model := (model t1)\<lparr>teacher_forcing_ratio := 0\<rparr>\<rparr>;
         t3 = print (EvalStart (teacher_forcing_ratio (model t2))) t2;
         iterator = (if \<not> is_test then valid_iter t3 else test_iter t3)
     in
     bind_result (evaluate_loop fw t3 iterator (0, 0, 0)) (\<lambda>(loss_sum, correct, correct_aux).
     bind_result (truediv loss_sum (real (length iterator))) (\<lambda>epoch_loss.
       (let n_examples = (if \<not> is_test then n_valid_examples t3 else n_test_examples t3);
            t4 = print (CorrectMain correct) t3;
            t5 = (if task t4 = ''Multi'' then print (CorrectAux correct_aux) t4 else t4)
        in
        bind_result (truediv (real correct) (real n_examples)) (\<lambda>acc.
        bind_result (truediv (real correct_aux) (real n_examples)) (\<lambda>acc_aux.
          (let t6 = t5\<lparr>model := (model t5)\<lparr>teacher_forcing_ratio := tfr t5\<rparr>\<rparr>;
               t7 = print (EvalEnd (teacher_forcing_ratio (model t6))) t6
           in Inr (t7, epoch_loss, acc, acc_aux))))))))"

subsection \<open>The training pass\<close>

text \<open>
  Lines 278 to 287 of \<open>train\<close>: the evaluation every so many steps.
\<close>

definition train_validate :: "'w framework \<Rightarrow> 'w Trainer \<Rightarrow> error + 'w Trainer" where
  "train_validate fw t =
    bind_result (evaluate fw False (print ValHeader t)) (\<lambda>(t1, valid_loss, valid_acc, valid_acc_aux).
    bind_result (evaluate fw True (print TstHeader t1)) (\<lambda>(t2, test_loss, test_acc, test_acc_aux).
    bind_result (update valid_loss valid_acc t2) (\<lambda>t3.
      (let t4 = (if task t3 = ''Multi'' then update_aux valid_acc_aux t3 else t3);
           t5 = t4\<lparr>world := scheduler_step fw (world t4) valid_acc,
                   scheduler_steps := scheduler_steps t4 @ [valid_acc]\<rparr>
       in Inr (t5\<lparr>model := (model t5)\<lparr>training := True\<rparr>\<rparr>)))))"

text \<open>
  The body of the loop of \<open>train\<close> for batch number \<open>i\<close>, on the trainer and the
  accumulator \<open>epoch_loss\<close>.
\<close>

definition train_batch ::
  "'w framework \<Rightarrow> nat \<Rightarrow> batch \<Rightarrow> 'w Trainer \<times> real \<Rightarrow> error + 'w Trainer \<times> real" where
  "train_batch fw i b st =
    (let t = fst st;
         (w, l) = optimize fw (world t) (model t) b;
         t1 = t\<lparr>world := w\<rparr>;
         epoch_loss = snd st + l;
         running_loss = epoch_loss / (real i + 1);
         t2 = t1\<lparr>train_memory_bank := (train_memory_bank t1)
                  \<lparr>n_steps := n_steps (train_memory_bank t1) + 1\<rparr>\<rparr>;
         interval = report_interval (train_memory_bank t2)
     in
     bind_result (py_mod (int i) interval) (\<lambda>r.
       if r = interval - 1 then
         (let t3 = print (ReportSteps (n_epoch (train_memory_bank t2)) (int i + 1)
                            (n_steps (train_memory_bank t2))) t2;
              t4 = print (ReportLoss running_loss) t3
          in
          bind_result (py_mod (n_steps (train_memory_bank t4)) (10 * interval)) (\<lambda>r10.
            if r10 = 0
            then bind_result (train_validate fw t4) (\<lambda>t5. Inr (t5, epoch_loss))
            else Inr (t4, epoch_loss)))
       else Inr (t2, epoch_loss)))"

fun train_loop ::
  "'w framework \<Rightarrow> batch list \<Rightarrow> nat \<Rightarrow> 'w Trainer \<times> real \<Rightarrow> error + 'w Trainer \<times> real" where
  "train_loop fw [] i st = Inr st"
| "train_loop fw (b # bs) i st =
    bind_result (train_batch fw i b st) (\<lambda>st'. train_loop fw bs (Suc i) st')"

definition train :: "'w framework \<Rightarrow> 'w Trainer \<Rightarrow> error + 'w Trainer \<times> real" where
  "train fw t =
    (let t1 = t\<lparr>model := (model t)\<lparr>training := True\<rparr>\<rparr>;
         t2 = t1\<lparr>model := (model t1)\<lparr>teacher_forcing_ratio := tfr t1\<rparr>\<rparr>;
         t3 = print (TrainTFR (teacher_forcing_ratio (model t2))) t2
     in
     bind_result (train_loop fw (train_iter t3) 0 (t3, 0)) (\<lambda>(t4, epoch_loss).
     bind_result (truediv epoch_loss (real (length (train_iter t4)))) (\<lambda>train_loss.
       Inr (t4, train_loss))))"

subsection \<open>The loop over the epochs\<close>

text \<open>The right-hand side of line 119.\<close>

definition epoch_tfr :: "int \<Rightarrow> real" where
  "epoch_tfr epoch = max (1 - (10 + real_of_int epoch * 1.5) / 50) 0.2"

text \<open>Lines 104 to 111: the start of an iteration, with the reset of the burning phase.\<close>

definition renew_records :: "int \<Rightarrow> int \<Rightarrow> 'w Trainer \<Rightarrow> 'w Trainer" where
  "renew_records burning_epoch epoch t =
    (let t1 = t\<lparr>train_memory_bank := (train_memory_bank t)\<lparr>n_epoch := epoch\<rparr>\<rparr>
     in if epoch \<le> burning_epoch then
          (let t2 = print RenewRecords t1
           in t2\<lparr>eval_memory_bank := (eval_memory_bank t2)
                   \<lparr>best_valid_loss := PosInf,
                    best_valid_acc := 0,
                    early_stopping_patience := trainer_early_stopping_patience t2\<rparr>\<rparr>)
        else t1)"

datatype 'a loop = Break 'a | Continue 'a

text \<open>One iteration of the loop of \<open>run\<close>.\<close>

definition run_epoch :: "'w framework \<Rightarrow> int \<Rightarrow> int \<Rightarrow> 'w Trainer \<Rightarrow> error + 'w Trainer loop" where
  "run_epoch fw burning_epoch epoch t =
    (let t1 = renew_records burning_epoch epoch t
     in if early_stopping_patience (eval_memory_bank t1) = 0
        then Inr (Break (print EarlyStopping t1))
        else
          bind_result (train fw (t1\<lparr>tfr := epoch_tfr epoch\<rparr>)) (\<lambda>(t2, train_loss).
          bind_result (evaluate fw False t2) (\<lambda>(t3, valid_loss, valid_acc, valid_acc_aux).
          bind_result (update valid_loss valid_acc t3) (\<lambda>t4.
            (let t5 = (if task t4 = ''Multi'' then update_aux valid_acc_aux t4 else t4);
                 t6 = print (EpochTime (epoch + 1)) t5;
                 t7 = print (EpochTrainLoss train_loss) t6
             in Inr (Continue (print (EpochValid valid_loss valid_acc) t7)))))))"

fun run_loop :: "'w framework \<Rightarrow> int \<Rightarrow> int list \<Rightarrow> 'w Trainer \<Rightarrow> error + 'w Trainer" where
  "run_loop fw burning_epoch [] t = Inr t"
| "run_loop fw burning_epoch (epoch # epochs) t =
    bind_result (run_epoch fw burning_epoch epoch t) (\<lambda>r.
      case r of
        Break t' \<Rightarrow> Inr t'
      | Continue t' \<Rightarrow> run_loop fw burning_epoch epochs t')"

definition run :: "'w framework \<Rightarrow> int \<Rightarrow> 'w Trainer \<Rightarrow> error + 'w Trainer" where
  "run fw burning_epoch t =
    run_loop fw burning_epoch (map int [0 ..< nat (total_epochs (train_memory_bank t))]) t"

subsection \<open>Predicates for the proofs\<close>

text \<open>
  \<open>returns m Q\<close>: if the computation \<open>m\<close> returns a value, the value satisfies \<open>Q\<close>.
\<close>

definition returns :: "error + 'a \<Rightarrow> ('a \<Rightarrow> bool) \<Rightarrow> bool" where
  "returns m Q = (case m of Inl e \<Rightarrow> True | Inr x \<Rightarrow> Q x)"

text \<open>
  \<open>keeps t t'\<close> relates a trainer to a later state of it: the configuration and the best
  auxiliary accuracy are the same, a patience counter within its range is still within it,
  and the output has only grown. \<open>stable\<close> adds that \<open>tfr\<close> is the same and that,
  where no better validation loss was announced, the patience counter has not risen.
\<close>

definition keeps :: "'w Trainer \<Rightarrow> 'w Trainer \<Rightarrow> bool" where
  "keeps t t' \<longleftrightarrow>
     trainer_early_stopping_patience t' = trainer_early_stopping_patience t \<and>
     valid_criterion t' = valid_criterion t \<and>
     task t' = task t \<and>
     best_valid_acc_aux (eval_memory_bank t') = best_valid_acc_aux (eval_memory_bank t) \<and>
     (0 \<le> early_stopping_patience (eval_memory_bank t) \<and>
      early_stopping_patience (eval_memory_bank t) \<le> trainer_early_stopping_patience t \<longrightarrow>
        0 \<le> early_stopping_patience (eval_memory_bank t') \<and>
        early_stopping_patience (eval_memory_bank t') \<le> trainer_early_stopping_patience t) \<and>
     (\<exists>out. stdout t' = stdout t @ out)"

definition stable :: "'w Trainer \<Rightarrow> 'w Trainer \<Rightarrow> bool" where
  "stable t t' \<longleftrightarrow> keeps t t' \<and> tfr t' = tfr t \<and>
     (\<exists>out. stdout t' = stdout t @ out \<and>
        (0 \<le> early_stopping_patience (eval_memory_bank t) \<and>
         early_stopping_patience (eval_memory_bank t) \<le> trainer_early_stopping_patience t \<and>
         BetterValidLoss \<notin> set out \<longrightarrow>
           early_stopping_patience (eval_memory_bank t') \<le> early_stopping_patience (eval_memory_bank t)))"


subsection \<open>A small instance\<close>

text \<open>
  A framework whose state is a counter: the loss of a batch is the counter, a training step
  increments it, and the model predicts the reference. The trainer has patience 2 of 2, the
  criterion LOSS, one batch in each iterator, and records that no later evaluation improves on.
\<close>

definition example_framework :: "nat framework" where
  "example_framework = \<lparr>
     forward = (\<lambda>w m b. \<lparr>pred = ref b, pred_aux = ref_aux b, loss_item = real w\<rparr>),
     optimize = (\<lambda>w m b. (Suc w, real w)),
     scheduler_step = (\<lambda>w a. w)\<rparr>"

definition example_trainer :: "nat Trainer" where
  "example_trainer = \<lparr>
     world = 1,
     model = \<lparr>teacher_forcing_ratio = 1, training = False\<rparr>,
     valid_criterion = ''LOSS'',
     eval_memory_bank = \<lparr>
       best_valid_loss = Fin 0, acc_valid_loss = Fin 0,
       best_valid_acc = 2, best_valid_epoch = 0, best_train_step = 0,
       early_stopping_patience = 2,
       best_valid_loss_aux = PosInf, best_valid_acc_aux = -1\<rparr>,
     trainer_early_stopping_patience = 2,
     train_memory_bank = \<lparr>
       exp_num = 1, total_epochs = 4, n_epoch = 0, n_steps = 0, report_interval = 2\<rparr>,
     task = ''Single-Main'',
     tfr = 0.8,
     trg_itos = [''<eos>'', ''a'', ''b'', ''c'', ''d''],
     aux_itos = [],
     train_iter = [\<lparr>ref = [[1, 2, 0, 4]], ref_aux = []\<rparr>],
     valid_iter = [\<lparr>ref = [[1, 2, 0, 4]], ref_aux = []\<rparr>],
     test_iter = [\<lparr>ref = [[1, 2, 0, 4]], ref_aux = []\<rparr>],
     n_valid_examples = 1,
     n_test_examples = 1,
     stdout = [],
     saved = [],
     scheduler_steps = []\<rparr>"

text \<open>
  The matching of the specification, in its words: a row is decoded by mapping its indices to
  the tokens of the vocabulary, truncating at the first end-of-sequence token and joining
  the tokens into a string; the result is the number of rows whose two strings are equal.
\<close>

definition decode_spec :: "string list \<Rightarrow> nat list \<Rightarrow> string" where
  "decode_spec itos row = concat (takeWhile (\<lambda>tok. tok \<noteq> ''<eos>'') (map (\<lambda>t. itos ! t) row))"

definition matching_spec :: "nat list list \<Rightarrow> nat list list \<Rightarrow> string list \<Rightarrow> nat" where
  "matching_spec prd rf itos =
     length (filter (\<lambda>(p, r). decode_spec itos p = decode_spec itos r) (zip prd rf))"

section \<open>Lemmas\<close>

subsection \<open>Results of computations\<close>

lemma bind_result_Inr:
  "bind_result m f = Inr y \<longleftrightarrow> (\<exists>x. m = Inr x \<and> f x = Inr y)"
  by (cases m) (simp_all add: bind_result_def)

lemma returns_Inr [simp]: "returns (Inr x) Q = Q x"
  by (simp add: returns_def)

lemma returns_Inl [simp]: "returns (Inl e) Q"
  by (simp add: returns_def)

lemma returnsD: "returns m Q \<Longrightarrow> m = Inr x \<Longrightarrow> Q x"
  by (simp add: returns_def)

lemma returnsI: "(\<And>x. m = Inr x \<Longrightarrow> Q x) \<Longrightarrow> returns m Q"
  by (cases m) simp_all

lemma returns_bind:
  "returns m P \<Longrightarrow> (\<And>x. m = Inr x \<Longrightarrow> P x \<Longrightarrow> returns (f x) Q) \<Longrightarrow> returns (bind_result m f) Q"
  by (cases m) (simp_all add: bind_result_def)

lemma returns_if:
  "(c \<Longrightarrow> returns a Q) \<Longrightarrow> (\<not> c \<Longrightarrow> returns b Q) \<Longrightarrow> returns (if c then a else b) Q"
  by simp

lemma keeps_refl: "keeps t t"
  by (simp add: keeps_def)

lemma keeps_trans: "keeps t t' \<Longrightarrow> keeps t' t'' \<Longrightarrow> keeps t t''"
  unfolding keeps_def by (elim conjE exE) auto

lemma stable_refl: "stable t t"
  by (simp add: stable_def keeps_refl)

lemma stable_keeps: "stable t t' \<Longrightarrow> keeps t t'"
  by (simp add: stable_def)

lemma stable_trans:
  assumes "stable t t'" and "stable t' t''"
  shows "stable t t''"
proof -
  from assms have k: "keeps t t'" "keeps t' t''" and f: "tfr t'' = tfr t"
    by (simp_all add: stable_def)
  from assms obtain o1 o2 where
    o1: "stdout t' = stdout t @ o1" and
    p1: "0 \<le> early_stopping_patience (eval_memory_bank t) \<and>
         early_stopping_patience (eval_memory_bank t) \<le> trainer_early_stopping_patience t \<and>
         BetterValidLoss \<notin> set o1 \<longrightarrow>
           early_stopping_patience (eval_memory_bank t') \<le> early_stopping_patience (eval_memory_bank t)" and
    o2: "stdout t'' = stdout t' @ o2" and
    p2: "0 \<le> early_stopping_patience (eval_memory_bank t') \<and>
         early_stopping_patience (eval_memory_bank t') \<le> trainer_early_stopping_patience t' \<and>
         BetterValidLoss \<notin> set o2 \<longrightarrow>
           early_stopping_patience (eval_memory_bank t'') \<le> early_stopping_patience (eval_memory_bank t')"
    unfolding stable_def by blast
  have "stdout t'' = stdout t @ (o1 @ o2)" by (simp add: o1 o2)
  moreover have "0 \<le> early_stopping_patience (eval_memory_bank t) \<and>
         early_stopping_patience (eval_memory_bank t) \<le> trainer_early_stopping_patience t \<and>
         BetterValidLoss \<notin> set (o1 @ o2) \<longrightarrow>
           early_stopping_patience (eval_memory_bank t'') \<le> early_stopping_patience (eval_memory_bank t)"
    using p1 p2 k(1) by (auto simp: keeps_def)
  ultimately show ?thesis
    using keeps_trans[OF k] f unfolding stable_def by blast
qed

lemma stable_same:
  "trainer_early_stopping_patience t' = trainer_early_stopping_patience t \<Longrightarrow>
   valid_criterion t' = valid_criterion t \<Longrightarrow> task t' = task t \<Longrightarrow> tfr t' = tfr t \<Longrightarrow>
   eval_memory_bank t' = eval_memory_bank t \<Longrightarrow> stdout t' = stdout t \<Longrightarrow> stable t t'"
  by (simp add: stable_def keeps_def)

lemma stable_print: "l \<noteq> BetterValidLoss \<Longrightarrow> stable t (print l t)"
  by (simp add: stable_def keeps_def print_def)

lemma stable_update_loss: "stable t (update_loss vl t)"
  by (simp add: update_loss_def Let_def print_def torch_save_def stable_def keeps_def)

lemma stable_update_acc: "stable t (update_acc vl va t)"
  by (simp add: update_acc_def Let_def print_def torch_save_def stable_def keeps_def)

lemma stable_update_report: "stable t (update_report vl va t)"
  by (simp add: update_report_def Let_def print_def stable_def keeps_def)

lemma stable_update: "returns (update vl va t) (stable t)"
  unfolding update_def Let_def
  by (auto intro!: stable_trans[OF stable_print stable_trans[OF stable_print
        stable_trans[OF stable_update_loss stable_trans[OF stable_update_acc stable_update_report]]]])

lemma stable_update_aux: "stable t (update_aux v t)"
  by (simp add: update_aux_def Let_def print_def stable_def keeps_def)

lemma evaluate_frame:
  assumes "evaluate fw is_test t = Inr (t', r)"
  shows "\<exists>out. t' = t\<lparr>model := (model t)\<lparr>training := False, teacher_forcing_ratio := tfr t\<rparr>,
                 stdout := stdout t @ out\<rparr> \<and> BetterValidLoss \<notin> set out"
proof (cases "task t = ''Multi''")
  case True
  with assms show ?thesis
    apply (simp add: evaluate_def Let_def bind_result_Inr print_def split_def)
    apply (elim exE conjE)
    apply (rule exI, rule conjI, erule sym)
    apply simp
    done
next
  case False
  with assms show ?thesis
    apply (simp add: evaluate_def Let_def bind_result_Inr print_def split_def)
    apply (elim exE conjE)
    apply (rule exI, rule conjI, erule sym)
    apply simp
    done
qed

lemma stable_evaluate: "returns (evaluate fw is_test t) (\<lambda>x. stable t (fst x))"
proof (rule returnsI)
  fix x assume "evaluate fw is_test t = Inr x"
  then have "evaluate fw is_test t = Inr (fst x, snd x)" by simp
  from evaluate_frame[OF this] show "stable t (fst x)"
    by (auto simp: stable_def keeps_def)
qed

lemma stable_bind:
  "returns m (\<lambda>x. stable t (p x)) \<Longrightarrow>
   (\<And>x. m = Inr x \<Longrightarrow> returns (f x) (\<lambda>y. stable (p x) (q y))) \<Longrightarrow>
   returns (bind_result m f) (\<lambda>y. stable t (q y))"
  by (cases m) (auto simp: bind_result_def returns_def split: sum.splits intro: stable_trans)

lemma stable_bind_fst: "returns m (\<lambda>x. stable t (fst x)) \<Longrightarrow>
   (\<And>x. m = Inr x \<Longrightarrow> returns (f x) (stable (fst x))) \<Longrightarrow>
   returns (bind_result m f) (stable t)"
  by (cases m) (auto simp: bind_result_def returns_def split: sum.splits intro: stable_trans)

lemma stable_bind_fst_fst: "returns m (\<lambda>x. stable t (fst x)) \<Longrightarrow>
   (\<And>x. m = Inr x \<Longrightarrow> returns (f x) (\<lambda>y. stable (fst x) (fst y))) \<Longrightarrow>
   returns (bind_result m f) (\<lambda>y. stable t (fst y))"
  by (rule stable_bind)

lemma stable_bind_id: "returns m (stable t) \<Longrightarrow>
   (\<And>x. m = Inr x \<Longrightarrow> returns (f x) (stable x)) \<Longrightarrow>
   returns (bind_result m f) (stable t)"
  by (cases m) (auto simp: bind_result_def returns_def split: sum.splits intro: stable_trans)

lemma stable_bind_id_fst: "returns m (stable t) \<Longrightarrow>
   (\<And>x. m = Inr x \<Longrightarrow> returns (f x) (\<lambda>y. stable x (fst y))) \<Longrightarrow>
   returns (bind_result m f) (\<lambda>y. stable t (fst y))"
  by (cases m) (auto simp: bind_result_def returns_def split: sum.splits intro: stable_trans)

lemma stable_pre:
  "stable t t1 \<Longrightarrow> returns m (\<lambda>y. stable t1 (q y)) \<Longrightarrow> returns m (\<lambda>y. stable t (q y))"
  by (cases m) (auto intro: stable_trans)

lemma stable_train_validate: "returns (train_validate fw t) (stable t)"
  unfolding train_validate_def split_def
  apply (rule stable_bind_fst)
   apply (rule stable_pre[OF stable_print[of ValHeader]], simp)
   apply (rule stable_evaluate)
  apply (rule stable_bind_fst)
   apply (rule stable_pre[OF stable_print[of TstHeader]], simp)
   apply (rule stable_evaluate)
  apply (rule stable_bind_id)
   apply (rule stable_update)
  apply (simp add: Let_def)
  apply (intro conjI impI)
   apply (rule stable_trans[OF stable_update_aux])
   apply (rule stable_same; simp)
  apply (rule stable_same; simp)
  done

lemma stable_train_batch: "returns (train_batch fw i b st) (\<lambda>y. stable (fst st) (fst y))"
  unfolding train_batch_def Let_def split_def
  apply (rule returns_bind[where P="\<lambda>_. True"])
   apply (simp add: returns_def split: sum.splits)
  apply (rule returns_if)
   apply (rule returns_bind[where P="\<lambda>_. True"])
    apply (simp add: returns_def split: sum.splits)
   apply (rule returns_if)
    apply (rule stable_bind_id_fst)
     apply (rule stable_pre[OF _ stable_train_validate])
     apply (rule stable_trans[OF stable_same stable_trans[OF stable_print stable_print]]; simp)
    apply (simp add: stable_refl)
   apply simp
   apply (rule stable_trans[OF stable_same stable_trans[OF stable_print stable_print]]; simp)
  apply simp
  apply (rule stable_same; simp)
  done

lemma stable_train_loop: "returns (train_loop fw bs i st) (\<lambda>y. stable (fst st) (fst y))"
proof (induction bs arbitrary: i st)
  case Nil
  show ?case by (simp add: stable_refl)
next
  case (Cons b bs)
  show ?case
    unfolding train_loop.simps
    by (rule stable_bind_fst_fst[OF stable_train_batch Cons.IH])
qed

lemma stable_train: "returns (train fw t) (\<lambda>y. stable t (fst y))"
  unfolding train_def Let_def split_def
  apply (rule stable_bind_fst_fst)
   apply (rule stable_pre[where q=fst, OF _ stable_train_loop])
   apply simp
   apply (rule stable_trans[OF stable_same stable_print]; simp)
  apply (simp add: truediv_def bind_result_def stable_refl)
  done

lemma run_epoch_Continue:
  assumes "run_epoch fw b e t = Inr (Continue t')"
  obtains t2 l t3 vl va vaa t4 where
    "early_stopping_patience (eval_memory_bank (renew_records b e t)) \<noteq> 0"
    "train fw ((renew_records b e t)\<lparr>tfr := epoch_tfr e\<rparr>) = Inr (t2, l)"
    "evaluate fw False t2 = Inr (t3, vl, va, vaa)"
    "update vl va t3 = Inr t4"
    "t' = print (EpochValid vl va) (print (EpochTrainLoss l) (print (EpochTime (e + 1))
            (if task t4 = ''Multi'' then update_aux vaa t4 else t4)))"
  using assms
  by (auto simp: run_epoch_def Let_def bind_result_Inr split: if_splits)

lemma run_epoch_Break:
  "run_epoch fw b e t = Inr (Break t') \<longleftrightarrow>
     early_stopping_patience (eval_memory_bank (renew_records b e t)) = 0 \<and>
     t' = print EarlyStopping (renew_records b e t)"
  by (auto simp: run_epoch_def Let_def bind_result_Inr split: if_splits)

lemma keeps_print: "keeps t (print l t)"
  by (simp add: keeps_def print_def)

lemma keeps_renew_records: "keeps t (renew_records b e t)"
  by (simp add: renew_records_def Let_def print_def keeps_def)

lemma renew_records_past:
  "b < e \<Longrightarrow> renew_records b e t = t\<lparr>train_memory_bank := (train_memory_bank t)\<lparr>n_epoch := e\<rparr>\<rparr>"
  by (simp add: renew_records_def)

subsection \<open>The checkpoint policy\<close>


lemma update_Inr_iff:
  "update vl va t = Inr t' \<longleftrightarrow>
     (valid_criterion t = ''LOSS'' \<or> valid_criterion t = ''ACC'') \<and>
     t' = update_report vl va (update_acc vl va (update_loss vl
      (print (Validating (n_epoch (train_memory_bank t))) (print SeparatorOpen t))))"
  by (auto simp: update_def Let_def print_def)

lemma saved_update_report [simp]: "saved (update_report vl va t) = saved t"
  by (simp add: update_report_def Let_def print_def)

lemma eval_memory_bank_update_report [simp]:
  "eval_memory_bank (update_report vl va t) = eval_memory_bank t"
  by (simp add: update_report_def Let_def print_def)




lemma update_loss_better:
  "le_float vl (best_valid_loss (eval_memory_bank t)) \<Longrightarrow>
     best_valid_loss (eval_memory_bank (update_loss vl t)) = Fin vl \<and>
     early_stopping_patience (eval_memory_bank (update_loss vl t)) = trainer_early_stopping_patience t"
  by (simp add: update_loss_def Let_def print_def torch_save_def)

lemma update_loss_worse:
  "\<not> le_float vl (best_valid_loss (eval_memory_bank t)) \<Longrightarrow>
     best_valid_loss (eval_memory_bank (update_loss vl t)) = best_valid_loss (eval_memory_bank t) \<and>
     early_stopping_patience (eval_memory_bank (update_loss vl t)) =
       max (early_stopping_patience (eval_memory_bank t) - 1) 0"
  by (simp add: update_loss_def Let_def print_def torch_save_def)

lemma update_acc_fields:
  "best_valid_loss (eval_memory_bank (update_acc vl va t)) = best_valid_loss (eval_memory_bank t)"
  "early_stopping_patience (eval_memory_bank (update_acc vl va t)) =
     early_stopping_patience (eval_memory_bank t)"
  by (simp_all add: update_acc_def Let_def print_def torch_save_def)


lemma print_fields [simp]:
  "saved (print l t) = saved t"
  "eval_memory_bank (print l t) = eval_memory_bank t"
  "train_memory_bank (print l t) = train_memory_bank t"
  "valid_criterion (print l t) = valid_criterion t"
  "trainer_early_stopping_patience (print l t) = trainer_early_stopping_patience t"
  "task (print l t) = task t"
  "tfr (print l t) = tfr t"
  "model (print l t) = model t"
  "world (print l t) = world t"
  "scheduler_steps (print l t) = scheduler_steps t"
  "stdout (print l t) = stdout t @ [l]"
  by (simp_all add: print_def)


subsection \<open>The loop over the epochs\<close>

lemma keeps_run_epoch_Break:
  "run_epoch fw b e t = Inr (Break t') \<Longrightarrow> keeps t t'"
  unfolding run_epoch_Break
  by (auto intro: keeps_trans[OF keeps_renew_records keeps_print])

lemma keeps_tfr: "keeps t (t\<lparr>tfr := x\<rparr>)"
  by (simp add: keeps_def)

lemma keeps_run_epoch_Continue:
  assumes "run_epoch fw b e t = Inr (Continue t')"
  shows "keeps t t'"
proof -
  from assms obtain t2 l t3 vl va vaa t4 where
    tr: "train fw ((renew_records b e t)\<lparr>tfr := epoch_tfr e\<rparr>) = Inr (t2, l)" and
    ev: "evaluate fw False t2 = Inr (t3, vl, va, vaa)" and
    up: "update vl va t3 = Inr t4" and
    t': "t' = print (EpochValid vl va) (print (EpochTrainLoss l) (print (EpochTime (e + 1))
            (if task t4 = ''Multi'' then update_aux vaa t4 else t4)))"
    by (rule run_epoch_Continue)
  have k1: "keeps t ((renew_records b e t)\<lparr>tfr := epoch_tfr e\<rparr>)"
    by (rule keeps_trans[OF keeps_renew_records keeps_tfr])
  have k2: "keeps ((renew_records b e t)\<lparr>tfr := epoch_tfr e\<rparr>) t2"
    using returnsD[OF stable_train tr] by (simp add: stable_keeps)
  have k3: "keeps t2 t3"
    using returnsD[OF stable_evaluate ev] by (simp add: stable_keeps)
  have k4: "keeps t3 t4"
    using returnsD[OF stable_update up] by (simp add: stable_keeps)
  have k5: "keeps t4 (if task t4 = ''Multi'' then update_aux vaa t4 else t4)"
    by (simp add: keeps_refl stable_keeps[OF stable_update_aux])
  have k6: "keeps (if task t4 = ''Multi'' then update_aux vaa t4 else t4) t'"
    unfolding t' by (rule keeps_trans[OF keeps_print keeps_trans[OF keeps_print keeps_print]])
  show ?thesis
    by (rule keeps_trans[OF k1 keeps_trans[OF k2 keeps_trans[OF k3 keeps_trans[OF k4
          keeps_trans[OF k5 k6]]]]])
qed

lemma keeps_run_loop: "run_loop fw b es t = Inr t' \<Longrightarrow> keeps t t'"
proof (induction es arbitrary: t)
  case Nil
  then show ?case by (simp add: keeps_refl)
next
  case (Cons e es)
  from Cons.prems obtain r where
    r: "run_epoch fw b e t = Inr r" and
    c: "(case r of Break t1 \<Rightarrow> Inr t1 | Continue t1 \<Rightarrow> run_loop fw b es t1) = Inr t'"
    by (auto simp: bind_result_Inr)
  show ?case
  proof (cases r)
    case (Break t1)
    with r c show ?thesis by (simp add: keeps_run_epoch_Break)
  next
    case (Continue t1)
    with r c have "keeps t t1" and "run_loop fw b es t1 = Inr t'"
      by (simp_all add: keeps_run_epoch_Continue)
    then show ?thesis
      using Cons.IH keeps_trans by blast
  qed
qed

lemma keeps_run: "run fw b t = Inr t' \<Longrightarrow> keeps t t'"
  unfolding run_def by (rule keeps_run_loop)

lemma stable_train_Inr: "train fw t = Inr (t', l) \<Longrightarrow> stable t t'"
  using returnsD[OF stable_train, of fw t "(t', l)"] by simp

lemma stable_evaluate_Inr: "evaluate fw is_test t = Inr (t', r) \<Longrightarrow> stable t t'"
  using returnsD[OF stable_evaluate, of fw is_test t "(t', r)"] by simp

lemma stable_update_Inr: "update vl va t = Inr t' \<Longrightarrow> stable t t'"
  by (rule returnsD[OF stable_update])

lemma keeps_train: "train fw t = Inr (t', l) \<Longrightarrow> keeps t t'"
  by (rule stable_keeps[OF stable_train_Inr])

lemma keeps_evaluate: "evaluate fw is_test t = Inr (t', r) \<Longrightarrow> keeps t t'"
  by (rule stable_keeps[OF stable_evaluate_Inr])

lemma keeps_update: "update vl va t = Inr t' \<Longrightarrow> keeps t t'"
  by (rule stable_keeps[OF stable_update_Inr])

lemma keeps_aux:
  "keeps t t' \<Longrightarrow> best_valid_acc_aux (eval_memory_bank t') = best_valid_acc_aux (eval_memory_bank t)"
  by (simp add: keeps_def)

lemma Trainer_init_fields:
  "Trainer_init criterion patience exp_no epochs interval ratio w m trg_vocab aux_vocab
           trn vld tst n_vld n_tst = Inr t0 \<Longrightarrow>
   best_valid_acc_aux (eval_memory_bank t0) = -1 \<and>
   early_stopping_patience (eval_memory_bank t0) = patience \<and>
   trainer_early_stopping_patience t0 = patience"
  unfolding Trainer_init_def
  by (cases "criterion \<noteq> ''ACC'' \<and> criterion \<noteq> ''LOSS''") (simp, clarsimp)

lemmas trainer_defs =
  run_def run_epoch_def renew_records_def train_def train_batch_def
  train_validate_def evaluate_def matching_def update_def update_loss_def update_acc_def
  update_report_def update_aux_def print_def torch_save_def epoch_tfr_def
  py_mod_def truediv_def bind_result_def Let_def

lemma update_aux_eq:
  "update_aux v t = t\<lparr>stdout := stdout t @
      (if v \<ge> best_valid_acc_aux (eval_memory_bank t) then [BetterValidAccAux] else []) @
      [BestValAccAux (best_valid_acc_aux (eval_memory_bank t))]\<rparr>"
  by (simp add: update_aux_def Let_def print_def)

subsection \<open>The patience counter\<close>

lemma keeps_range:
  "keeps t t' \<Longrightarrow> 0 \<le> early_stopping_patience (eval_memory_bank t) \<Longrightarrow>
   early_stopping_patience (eval_memory_bank t) \<le> trainer_early_stopping_patience t \<Longrightarrow>
   0 \<le> early_stopping_patience (eval_memory_bank t') \<and>
   early_stopping_patience (eval_memory_bank t') \<le> trainer_early_stopping_patience t \<and>
   trainer_early_stopping_patience t' = trainer_early_stopping_patience t"
  by (simp add: keeps_def)

lemma update_patience:
  assumes "update vl va t = Inr t'"
  shows "early_stopping_patience (eval_memory_bank t') =
     (if le_float vl (best_valid_loss (eval_memory_bank t))
      then trainer_early_stopping_patience t
      else max (early_stopping_patience (eval_memory_bank t) - 1) 0)"
proof -
  let ?t0 = "print (Validating (n_epoch (train_memory_bank t))) (print SeparatorOpen t)"
  have e: "eval_memory_bank ?t0 = eval_memory_bank t"
    and m: "trainer_early_stopping_patience ?t0 = trainer_early_stopping_patience t"
    by simp_all
  from assms have "early_stopping_patience (eval_memory_bank t') =
      early_stopping_patience (eval_memory_bank (update_loss vl ?t0))"
    by (simp add: update_Inr_iff update_acc_fields)
  also have "\<dots> = (if le_float vl (best_valid_loss (eval_memory_bank t))
      then trainer_early_stopping_patience t
      else max (early_stopping_patience (eval_memory_bank t) - 1) 0)"
    using update_loss_better[of vl ?t0] update_loss_worse[of vl ?t0]
    unfolding e m by simp
  finally show ?thesis .
qed

lemma renew_records_patience:
  "early_stopping_patience (eval_memory_bank (renew_records b e t)) =
     (if e \<le> b then trainer_early_stopping_patience t
      else early_stopping_patience (eval_memory_bank t))"
  "trainer_early_stopping_patience (renew_records b e t) = trainer_early_stopping_patience t"
  by (simp_all add: renew_records_def Let_def print_def)

lemma evaluate_banks:
  assumes "evaluate fw is_test t = Inr (t', r)"
  shows "eval_memory_bank t' = eval_memory_bank t"
    and "train_memory_bank t' = train_memory_bank t"
    and "trainer_early_stopping_patience t' = trainer_early_stopping_patience t"
    and "tfr t' = tfr t"
    and "teacher_forcing_ratio (model t') = tfr t"
    and "saved t' = saved t" and "scheduler_steps t' = scheduler_steps t"
    and "world t' = world t"
  using evaluate_frame[OF assms] by auto

subsection \<open>The teacher forcing ratio and the burning phase\<close>

lemma keeps_stdout: "keeps t t' \<Longrightarrow> set (stdout t) \<subseteq> set (stdout t')"
  by (auto simp: keeps_def)

lemma stable_tfr: "stable t t' \<Longrightarrow> tfr t' = tfr t"
  by (simp add: stable_def)

lemma train_announces:
  assumes "train fw t = Inr (t', l)"
  shows "TrainTFR (tfr t) \<in> set (stdout t')"
proof -
  let ?t3 = "print (TrainTFR (tfr t))
      (t\<lparr>model := (model t)\<lparr>training := True, teacher_forcing_ratio := tfr t\<rparr>\<rparr>)"
  from assms obtain st where
    l: "train_loop fw (train_iter t) 0 (?t3, 0) = Inr st" and st: "t' = fst st"
    by (auto simp: train_def Let_def bind_result_Inr print_def split_def)
  have "stable ?t3 (fst st)"
    using returnsD[OF stable_train_loop l] by simp
  then have "set (stdout ?t3) \<subseteq> set (stdout t')"
    unfolding st by (intro keeps_stdout stable_keeps)
  then show ?thesis by auto
qed

lemma epoch_tfr_mono: "e \<le> e' \<Longrightarrow> epoch_tfr e' \<le> epoch_tfr e"
proof -
  assume "e \<le> e'"
  then have "real_of_int e \<le> real_of_int e'" by simp
  then show ?thesis
    unfolding epoch_tfr_def by (auto simp: max_def)
qed

lemma run_epoch_tfr:
  assumes "run_epoch fw b e t = Inr (Continue t')"
  shows "tfr t' = epoch_tfr e" and "teacher_forcing_ratio (model t') = epoch_tfr e"
    and "TrainTFR (epoch_tfr e) \<in> set (stdout t')"
proof -
  let ?t1 = "(renew_records b e t)\<lparr>tfr := epoch_tfr e\<rparr>"
  from assms obtain t2 l t3 vl va vaa t4 where
    tr: "train fw ?t1 = Inr (t2, l)" and
    ev: "evaluate fw False t2 = Inr (t3, vl, va, vaa)" and
    up: "update vl va t3 = Inr t4" and
    t': "t' = print (EpochValid vl va) (print (EpochTrainLoss l) (print (EpochTime (e + 1))
            (if task t4 = ''Multi'' then update_aux vaa t4 else t4)))"
    by (rule run_epoch_Continue)
  let ?t5 = "if task t4 = ''Multi'' then update_aux vaa t4 else t4"
  have f2: "tfr t2 = epoch_tfr e"
    using stable_tfr[OF stable_train_Inr[OF tr]] by simp
  have f3: "tfr t3 = epoch_tfr e" and m3: "teacher_forcing_ratio (model t3) = epoch_tfr e"
    using evaluate_banks(4,5)[OF ev] f2 by simp_all
  have s34: "stable t3 t4" by (rule stable_update_Inr[OF up])
  have m4: "model t4 = model t3"
    using up by (simp add: update_Inr_iff update_report_def update_acc_def update_loss_def
        Let_def print_def torch_save_def)
  have f5: "tfr ?t5 = epoch_tfr e" and m5: "model ?t5 = model t3"
    using stable_tfr[OF s34] f3 m4 by (simp_all add: update_aux_eq)
  show "tfr t' = epoch_tfr e"
    unfolding t' using f5 by simp
  show "teacher_forcing_ratio (model t') = epoch_tfr e"
    unfolding t' using m5 m3 by simp
  have "TrainTFR (epoch_tfr e) \<in> set (stdout t2)"
    using train_announces[OF tr] by simp
  moreover have "keeps t2 t'"
  proof -
    have k5: "keeps t4 ?t5"
      by (simp add: keeps_refl stable_keeps[OF stable_update_aux])
    have k6: "keeps ?t5 t'"
      unfolding t' by (rule keeps_trans[OF keeps_print keeps_trans[OF keeps_print keeps_print]])
    show ?thesis
      by (rule keeps_trans[OF keeps_evaluate[OF ev] keeps_trans[OF keeps_update[OF up]
            keeps_trans[OF k5 k6]]])
  qed
  ultimately show "TrainTFR (epoch_tfr e) \<in> set (stdout t')"
    using keeps_stdout by blast
qed

lemma renew_records_burning:
  "e \<le> b \<Longrightarrow>
   renew_records b e (t\<lparr>eval_memory_bank := (eval_memory_bank t)
      \<lparr>best_valid_loss := x, best_valid_acc := y, early_stopping_patience := z\<rparr>\<rparr>) =
   renew_records b e t"
  by (simp add: renew_records_def Let_def print_def)

lemma run_epoch_renew:
  "renew_records b e t1 = renew_records b e t2 \<Longrightarrow> run_epoch fw b e t1 = run_epoch fw b e t2"
  by (simp add: run_epoch_def)

subsection \<open>Early stopping\<close>

lemma stable_outE:
  assumes "stable t t'"
    and "0 \<le> early_stopping_patience (eval_memory_bank t)"
    and "early_stopping_patience (eval_memory_bank t) \<le> trainer_early_stopping_patience t"
  obtains out where "stdout t' = stdout t @ out"
    and "BetterValidLoss \<notin> set out \<Longrightarrow>
      early_stopping_patience (eval_memory_bank t') \<le> early_stopping_patience (eval_memory_bank t)"
  using assms unfolding stable_def by blast

lemma update_quiet:
  assumes "update vl va t = Inr t'"
  obtains out where "stdout t' = stdout t @ out"
    and "BetterValidLoss \<notin> set out \<Longrightarrow>
      early_stopping_patience (eval_memory_bank t') =
        max (early_stopping_patience (eval_memory_bank t) - 1) 0"
proof (cases "le_float vl (best_valid_loss (eval_memory_bank t))")
  case True
  have "\<exists>out. stdout t' = stdout t @ out \<and> BetterValidLoss \<in> set out"
    using assms True
    by (cases "va \<ge> best_valid_acc (eval_memory_bank t)")
      (simp_all add: update_Inr_iff update_report_def update_acc_def update_loss_def
        Let_def print_def torch_save_def)
  then show ?thesis using that by blast
next
  case False
  obtain out where "stdout t' = stdout t @ out"
    using keeps_update[OF assms] unfolding keeps_def by blast
  moreover have "early_stopping_patience (eval_memory_bank t') =
        max (early_stopping_patience (eval_memory_bank t) - 1) 0"
    using update_patience[OF assms] False by simp
  ultimately show ?thesis using that by blast
qed

lemma run_epoch_quiet:
  assumes r: "run_epoch fw b e t = Inr (Continue t')"
    and be: "b < e"
    and p0: "0 \<le> early_stopping_patience (eval_memory_bank t)"
    and pm: "early_stopping_patience (eval_memory_bank t) \<le> trainer_early_stopping_patience t"
  obtains out where "stdout t' = stdout t @ out"
    and "BetterValidLoss \<notin> set out \<Longrightarrow>
      early_stopping_patience (eval_memory_bank t') \<le> early_stopping_patience (eval_memory_bank t) - 1"
proof -
  let ?t1 = "(renew_records b e t)\<lparr>tfr := epoch_tfr e\<rparr>"
  from r obtain t2 l t3 vl va vaa t4 where
    nz: "early_stopping_patience (eval_memory_bank (renew_records b e t)) \<noteq> 0" and
    tr: "train fw ?t1 = Inr (t2, l)" and
    ev: "evaluate fw False t2 = Inr (t3, vl, va, vaa)" and
    up: "update vl va t3 = Inr t4" and
    t': "t' = print (EpochValid vl va) (print (EpochTrainLoss l) (print (EpochTime (e + 1))
            (if task t4 = ''Multi'' then update_aux vaa t4 else t4)))"
    by (rule run_epoch_Continue)
  have t1: "eval_memory_bank ?t1 = eval_memory_bank t" "stdout ?t1 = stdout t"
    "trainer_early_stopping_patience ?t1 = trainer_early_stopping_patience t"
    using be by (simp_all add: renew_records_past)
  have p1: "1 \<le> early_stopping_patience (eval_memory_bank t)"
    using nz p0 be by (simp add: renew_records_past)
  have s13: "stable ?t1 t3"
    by (rule stable_trans[OF stable_train_Inr[OF tr] stable_evaluate_Inr[OF ev]])
  from stable_outE[OF s13] p0 pm t1 obtain o13 where
    o13: "stdout t3 = stdout t @ o13" and
    q13: "BetterValidLoss \<notin> set o13 \<Longrightarrow>
      early_stopping_patience (eval_memory_bank t3) \<le> early_stopping_patience (eval_memory_bank t)"
    by metis
  from update_quiet[OF up] obtain o34 where
    o34: "stdout t4 = stdout t3 @ o34" and
    q34: "BetterValidLoss \<notin> set o34 \<Longrightarrow>
      early_stopping_patience (eval_memory_bank t4) =
        max (early_stopping_patience (eval_memory_bank t3) - 1) 0"
    by blast
  let ?aux = "if task t4 = ''Multi''
      then (if vaa \<ge> best_valid_acc_aux (eval_memory_bank t4) then [BetterValidAccAux] else []) @
        [BestValAccAux (best_valid_acc_aux (eval_memory_bank t4))]
      else []"
  let ?out = "o13 @ o34 @ ?aux @ [EpochTime (e + 1), EpochTrainLoss l, EpochValid vl va]"
  have e': "eval_memory_bank t' = eval_memory_bank t4"
    unfolding t' by (simp add: update_aux_eq)
  have s': "stdout t' = stdout t @ ?out"
    unfolding t' by (simp add: update_aux_eq o13 o34)
  have "early_stopping_patience (eval_memory_bank t') \<le>
      early_stopping_patience (eval_memory_bank t) - 1" if "BetterValidLoss \<notin> set ?out"
  proof -
    from that have "BetterValidLoss \<notin> set o13" "BetterValidLoss \<notin> set o34" by simp_all
    with q13 q34 p1 show ?thesis unfolding e' by simp
  qed
  with s' show ?thesis using that by blast
qed

lemma run_loop_quiet:
  assumes "\<forall>e \<in> set es. b < e"
    and "0 \<le> early_stopping_patience (eval_memory_bank t)"
    and "early_stopping_patience (eval_memory_bank t) \<le> trainer_early_stopping_patience t"
    and "early_stopping_patience (eval_memory_bank t) < int (length es)"
    and "run_loop fw b (es @ es') t = Inr t'"
    and "stdout t' = stdout t @ out"
    and "BetterValidLoss \<notin> set out"
  shows "run_loop fw b es t = Inr t' \<and> last (stdout t') = EarlyStopping"
  using assms
proof (induction es arbitrary: t out)
  case Nil
  then show ?case by simp
next
  case (Cons e es)
  from Cons.prems(5) obtain r where
    r: "run_epoch fw b e t = Inr r" and
    c: "(case r of Break t1 \<Rightarrow> Inr t1 | Continue t1 \<Rightarrow> run_loop fw b (es @ es') t1) = Inr t'"
    by (auto simp: bind_result_Inr)
  show ?case
  proof (cases r)
    case (Break t1)
    with r c have rb: "run_epoch fw b e t = Inr (Break t')" by simp
    have "run_loop fw b (e # es) t = Inr t'"
      by (simp add: bind_result_def rb)
    moreover have "last (stdout t') = EarlyStopping"
      using rb unfolding run_epoch_Break by simp
    ultimately show ?thesis by simp
  next
    case (Continue t1)
    with r c have r1: "run_epoch fw b e t = Inr (Continue t1)"
      and l1: "run_loop fw b (es @ es') t1 = Inr t'" by simp_all
    have be: "b < e" using Cons.prems(1) by simp
    from run_epoch_quiet[OF r1 be Cons.prems(2,3)] obtain o1 where
      o1: "stdout t1 = stdout t @ o1" and
      q1: "BetterValidLoss \<notin> set o1 \<Longrightarrow>
        early_stopping_patience (eval_memory_bank t1) \<le>
          early_stopping_patience (eval_memory_bank t) - 1"
      by blast
    obtain o2 where o2: "stdout t' = stdout t1 @ o2"
      using keeps_run_loop[OF l1] unfolding keeps_def by blast
    from o1 o2 Cons.prems(6) have out: "out = o1 @ o2" by simp
    with Cons.prems(7) have n1: "BetterValidLoss \<notin> set o1" and n2: "BetterValidLoss \<notin> set o2"
      by simp_all
    have k: "keeps t t1" by (rule keeps_run_epoch_Continue[OF r1])
    from keeps_range[OF k Cons.prems(2,3)]
    have rg: "0 \<le> early_stopping_patience (eval_memory_bank t1)"
      "early_stopping_patience (eval_memory_bank t1) \<le> trainer_early_stopping_patience t1"
      by simp_all
    have lt: "early_stopping_patience (eval_memory_bank t1) < int (length es)"
      using q1[OF n1] Cons.prems(4) by simp
    have "\<forall>e \<in> set es. b < e" using Cons.prems(1) by simp
    from Cons.IH[OF this rg lt l1 o2 n2]
    show ?thesis using r1 by (simp add: bind_result_def)
  qed
qed

subsection \<open>Exact-match accuracy\<close>

lemma decode_in_range:
  "\<forall>t \<in> set row. t < length itos \<Longrightarrow>
   decode itos row = Inr (takeWhile (\<lambda>tok. tok \<noteq> ''<eos>'') (map (\<lambda>t. itos ! t) row))"
  by (induction row) (simp_all add: bind_result_def Let_def)

lemma decode_until_eos:
  "\<forall>t \<in> set xs. t < length itos \<and> itos ! t \<noteq> ''<eos>'' \<Longrightarrow>
   e < length itos \<Longrightarrow> itos ! e = ''<eos>'' \<Longrightarrow>
   decode itos (xs @ e # ys) = Inr (map (\<lambda>t. itos ! t) xs)"
  by (induction xs) (simp_all add: bind_result_def Let_def)

lemma matching_rows_in_range:
  "length ps \<le> length rs \<Longrightarrow>
   \<forall>row \<in> set ps \<union> set rs. \<forall>t \<in> set row. t < length itos \<Longrightarrow>
   matching_rows ps rs itos tally = Inr (tally + matching_spec ps rs itos)"
proof (induction ps arbitrary: rs tally)
  case Nil
  then show ?case by (simp add: matching_spec_def)
next
  case (Cons p ps)
  from Cons.prems(1) obtain r rs' where rs: "rs = r # rs'"
    by (cases rs) auto
  have dp: "decode itos p = Inr (takeWhile (\<lambda>tok. tok \<noteq> ''<eos>'') (map (\<lambda>t. itos ! t) p))"
    using Cons.prems(2) by (intro decode_in_range) simp
  have dr: "decode itos r = Inr (takeWhile (\<lambda>tok. tok \<noteq> ''<eos>'') (map (\<lambda>t. itos ! t) r))"
    using Cons.prems(2) rs by (intro decode_in_range) simp
  have ih: "matching_rows ps rs' itos n = Inr (n + matching_spec ps rs' itos)" for n
    using Cons.prems rs by (intro Cons.IH) auto
  show ?case
    unfolding rs
    by (simp add: dp dr ih bind_result_def matching_spec_def decode_spec_def)
qed

subsection \<open>The evaluation pass\<close>






section \<open>The claims\<close>




text \<open>
  C10. \<open>update_aux\<close> changes nothing of the trainer but its output: the evaluation memory
  bank, with the patience counter in it, and the checkpoints written are the same. No
  operation of the trainer assigns \<open>best_valid_acc_aux\<close>, which a new trainer starts at -1,
  so the comparison in \<open>update_aux\<close> is always against -1.
\<close>

theorem update_aux_only_logs:
  "update_aux valid_acc_aux t = t\<lparr>stdout := stdout t @
      (if valid_acc_aux \<ge> best_valid_acc_aux (eval_memory_bank t) then [BetterValidAccAux] else []) @
      [BestValAccAux (best_valid_acc_aux (eval_memory_bank t))]\<rparr> \<and>
   eval_memory_bank (update_aux valid_acc_aux t) = eval_memory_bank t \<and>
   saved (update_aux valid_acc_aux t) = saved t \<and>
   (\<forall>t0. Trainer_init criterion patience exp_no epochs interval ratio w m trg_vocab aux_vocab
           trn vld tst n_vld n_tst = Inr t0 \<longrightarrow>
         best_valid_acc_aux (eval_memory_bank (t0 :: 'w Trainer)) = -1) \<and>
   (\<forall>t'. update valid_loss valid_acc t = Inr t' \<longrightarrow>
         best_valid_acc_aux (eval_memory_bank t') = best_valid_acc_aux (eval_memory_bank t)) \<and>
   (\<forall>t' r. evaluate fw is_test t = Inr (t', r) \<longrightarrow>
         best_valid_acc_aux (eval_memory_bank t') = best_valid_acc_aux (eval_memory_bank t)) \<and>
   (\<forall>t' l. train fw t = Inr (t', l) \<longrightarrow>
         best_valid_acc_aux (eval_memory_bank t') = best_valid_acc_aux (eval_memory_bank t)) \<and>
   (\<forall>t'. run fw burning_epoch t = Inr t' \<longrightarrow>
         best_valid_acc_aux (eval_memory_bank t') = best_valid_acc_aux (eval_memory_bank t))"
proof (intro conjI allI impI)
  show "update_aux valid_acc_aux t = t\<lparr>stdout := stdout t @
      (if valid_acc_aux \<ge> best_valid_acc_aux (eval_memory_bank t) then [BetterValidAccAux] else []) @
      [BestValAccAux (best_valid_acc_aux (eval_memory_bank t))]\<rparr>"
    by (rule update_aux_eq)
  show "eval_memory_bank (update_aux valid_acc_aux t) = eval_memory_bank t"
    by (simp add: update_aux_eq)
  show "saved (update_aux valid_acc_aux t) = saved t"
    by (simp add: update_aux_eq)
next
  fix t0 :: "'w Trainer"
  assume "Trainer_init criterion patience exp_no epochs interval ratio w m trg_vocab aux_vocab
           trn vld tst n_vld n_tst = Inr t0"
  then show "best_valid_acc_aux (eval_memory_bank t0) = -1"
    by (simp add: Trainer_init_fields)
next
  fix t' assume "update valid_loss valid_acc t = Inr t'"
  then show "best_valid_acc_aux (eval_memory_bank t') = best_valid_acc_aux (eval_memory_bank t)"
    by (intro keeps_aux keeps_update)
next
  fix t' r assume "evaluate fw is_test t = Inr (t', r)"
  then show "best_valid_acc_aux (eval_memory_bank t') = best_valid_acc_aux (eval_memory_bank t)"
    by (intro keeps_aux keeps_evaluate)
next
  fix t' l assume "train fw t = Inr (t', l)"
  then show "best_valid_acc_aux (eval_memory_bank t') = best_valid_acc_aux (eval_memory_bank t)"
    by (intro keeps_aux keeps_train)
next
  fix t' assume "run fw burning_epoch t = Inr t'"
  then show "best_valid_acc_aux (eval_memory_bank t') = best_valid_acc_aux (eval_memory_bank t)"
    by (intro keeps_aux keeps_run)
qed


theorem update_aux_only_logs_witness:
  "update_aux 0.5 example_trainer =
     example_trainer\<lparr>stdout := [BetterValidAccAux, BestValAccAux (-1)]\<rparr> \<and>
   (\<exists>t'. run example_framework (-1) example_trainer = Inr t' \<and>
      best_valid_acc_aux (eval_memory_bank t') = -1)"
  using update_aux_only_logs[where t=example_trainer and valid_acc_aux="0.5"
      and fw=example_framework and burning_epoch="-1"]
  by (simp add: trainer_defs example_trainer_def example_framework_def upt_rec)

text \<open>
  C2. While the patience counter is within 0 and the configured maximum, every operation of
  the trainer leaves it there: \<open>update\<close> sets it to the maximum when the loss did not get
  worse, and otherwise to one less, but not below 0; the reset of the burning phase sets it to
  the maximum; \<open>update_aux\<close> and \<open>evaluate\<close> do not change it; \<open>train\<close> and \<open>run\<close>
  return it within the range. A new trainer starts with the counter at the maximum. The
  maximum itself never changes.
\<close>

theorem patience_in_range:
  assumes "0 \<le> early_stopping_patience (eval_memory_bank t)"
    and "early_stopping_patience (eval_memory_bank t) \<le> trainer_early_stopping_patience t"
  shows
   "(\<forall>t'. update valid_loss valid_acc t = Inr t' \<longrightarrow>
        early_stopping_patience (eval_memory_bank t') =
          (if le_float valid_loss (best_valid_loss (eval_memory_bank t))
           then trainer_early_stopping_patience t
           else max (early_stopping_patience (eval_memory_bank t) - 1) 0) \<and>
        0 \<le> early_stopping_patience (eval_memory_bank t') \<and>
        early_stopping_patience (eval_memory_bank t') \<le> trainer_early_stopping_patience t \<and>
        trainer_early_stopping_patience t' = trainer_early_stopping_patience t) \<and>
    early_stopping_patience (eval_memory_bank (renew_records burning_epoch epoch t)) =
      (if epoch \<le> burning_epoch then trainer_early_stopping_patience t
       else early_stopping_patience (eval_memory_bank t)) \<and>
    trainer_early_stopping_patience (renew_records burning_epoch epoch t) =
      trainer_early_stopping_patience t \<and>
    early_stopping_patience (eval_memory_bank (update_aux valid_acc_aux t)) =
      early_stopping_patience (eval_memory_bank t) \<and>
    trainer_early_stopping_patience (update_aux valid_acc_aux t) =
      trainer_early_stopping_patience t \<and>
    (\<forall>t' r. evaluate fw is_test t = Inr (t', r) \<longrightarrow>
        early_stopping_patience (eval_memory_bank t') = early_stopping_patience (eval_memory_bank t) \<and>
        trainer_early_stopping_patience t' = trainer_early_stopping_patience t) \<and>
    (\<forall>t' l. train fw t = Inr (t', l) \<longrightarrow>
        0 \<le> early_stopping_patience (eval_memory_bank t') \<and>
        early_stopping_patience (eval_memory_bank t') \<le> trainer_early_stopping_patience t \<and>
        trainer_early_stopping_patience t' = trainer_early_stopping_patience t) \<and>
    (\<forall>t'. run fw burning_epoch t = Inr t' \<longrightarrow>
        0 \<le> early_stopping_patience (eval_memory_bank t') \<and>
        early_stopping_patience (eval_memory_bank t') \<le> trainer_early_stopping_patience t \<and>
        trainer_early_stopping_patience t' = trainer_early_stopping_patience t) \<and>
    (\<forall>t0. Trainer_init criterion patience exp_no epochs interval ratio w m trg_vocab aux_vocab
           trn vld tst n_vld n_tst = Inr t0 \<longrightarrow>
        early_stopping_patience (eval_memory_bank (t0 :: 'w Trainer)) = patience \<and>
        trainer_early_stopping_patience t0 = patience)"
proof -
  have u: "\<forall>t'. update valid_loss valid_acc t = Inr t' \<longrightarrow>
        early_stopping_patience (eval_memory_bank t') =
          (if le_float valid_loss (best_valid_loss (eval_memory_bank t))
           then trainer_early_stopping_patience t
           else max (early_stopping_patience (eval_memory_bank t) - 1) 0) \<and>
        0 \<le> early_stopping_patience (eval_memory_bank t') \<and>
        early_stopping_patience (eval_memory_bank t') \<le> trainer_early_stopping_patience t \<and>
        trainer_early_stopping_patience t' = trainer_early_stopping_patience t"
    using update_patience keeps_range[OF keeps_update assms] by blast
  have a: "early_stopping_patience (eval_memory_bank (update_aux valid_acc_aux t)) =
      early_stopping_patience (eval_memory_bank t) \<and>
    trainer_early_stopping_patience (update_aux valid_acc_aux t) =
      trainer_early_stopping_patience t"
    by (simp add: update_aux_eq)
  have e: "\<forall>t' r. evaluate fw is_test t = Inr (t', r) \<longrightarrow>
        early_stopping_patience (eval_memory_bank t') = early_stopping_patience (eval_memory_bank t) \<and>
        trainer_early_stopping_patience t' = trainer_early_stopping_patience t"
    using evaluate_banks(1,3) by metis
  have tr: "\<forall>t' l. train fw t = Inr (t', l) \<longrightarrow>
        0 \<le> early_stopping_patience (eval_memory_bank t') \<and>
        early_stopping_patience (eval_memory_bank t') \<le> trainer_early_stopping_patience t \<and>
        trainer_early_stopping_patience t' = trainer_early_stopping_patience t"
    using keeps_range[OF keeps_train assms] by blast
  have r: "\<forall>t'. run fw burning_epoch t = Inr t' \<longrightarrow>
        0 \<le> early_stopping_patience (eval_memory_bank t') \<and>
        early_stopping_patience (eval_memory_bank t') \<le> trainer_early_stopping_patience t \<and>
        trainer_early_stopping_patience t' = trainer_early_stopping_patience t"
    using keeps_range[OF keeps_run assms] by blast
  have i: "\<forall>t0. Trainer_init criterion patience exp_no epochs interval ratio w m trg_vocab aux_vocab
           trn vld tst n_vld n_tst = Inr t0 \<longrightarrow>
        early_stopping_patience (eval_memory_bank (t0 :: 'w Trainer)) = patience \<and>
        trainer_early_stopping_patience t0 = patience"
  proof (intro allI impI)
    fix t0 :: "'w Trainer"
    assume "Trainer_init criterion patience exp_no epochs interval ratio w m trg_vocab aux_vocab
           trn vld tst n_vld n_tst = Inr t0"
    from Trainer_init_fields[OF this]
    show "early_stopping_patience (eval_memory_bank t0) = patience \<and>
        trainer_early_stopping_patience t0 = patience" by simp
  qed
  show ?thesis
    using u a e tr r i renew_records_patience[of burning_epoch epoch t] by blast
qed

theorem patience_in_range_witness:
  "0 \<le> early_stopping_patience (eval_memory_bank example_trainer) \<and>
   early_stopping_patience (eval_memory_bank example_trainer) \<le>
     trainer_early_stopping_patience example_trainer \<and>
   (\<exists>t'. update 5 0 example_trainer = Inr t' \<and>
      early_stopping_patience (eval_memory_bank t') = 1) \<and>
   (\<exists>t'. run example_framework (-1) example_trainer = Inr t' \<and>
      early_stopping_patience (eval_memory_bank t') = 0 \<and>
      trainer_early_stopping_patience t' = 2)"
  using patience_in_range[where t=example_trainer and valid_loss=5 and valid_acc=0
      and fw=example_framework and burning_epoch="-1"]
  by (simp add: trainer_defs example_trainer_def example_framework_def upt_rec)

text \<open>
  C3. The teacher forcing ratio of epoch \<open>e\<close> is \<open>max (1 - (10 + 1.5 e) / 50) 0.2\<close>, over
  the reals: it is at least 0.2 and does not increase with \<open>e\<close>. Every iteration of the loop
  of \<open>run\<close> that does not stop early trains with this ratio: the training pass announces
  it, and after the iteration it is the trainer's ratio and the model's.
\<close>

theorem teacher_forcing_decay:
  "epoch_tfr e = max (1 - (10 + 1.5 * real_of_int e) / 50) 0.2 \<and>
   0.2 \<le> epoch_tfr e \<and>
   (\<forall>e'. e \<le> e' \<longrightarrow> epoch_tfr e' \<le> epoch_tfr e) \<and>
   (\<forall>t'. run_epoch fw burning_epoch e t = Inr (Continue t') \<longrightarrow>
      tfr t' = epoch_tfr e \<and>
      teacher_forcing_ratio (model t') = epoch_tfr e \<and>
      TrainTFR (epoch_tfr e) \<in> set (stdout t'))"
proof (intro conjI allI impI)
  show "epoch_tfr e = max (1 - (10 + 1.5 * real_of_int e) / 50) 0.2"
    by (simp add: epoch_tfr_def mult.commute)
  show "0.2 \<le> epoch_tfr e"
    by (simp add: epoch_tfr_def)
next
  fix e' assume "e \<le> e'"
  then show "epoch_tfr e' \<le> epoch_tfr e" by (rule epoch_tfr_mono)
next
  fix t' assume r: "run_epoch fw burning_epoch e t = Inr (Continue t')"
  show "tfr t' = epoch_tfr e" by (rule run_epoch_tfr(1)[OF r])
  show "teacher_forcing_ratio (model t') = epoch_tfr e" by (rule run_epoch_tfr(2)[OF r])
  show "TrainTFR (epoch_tfr e) \<in> set (stdout t')" by (rule run_epoch_tfr(3)[OF r])
qed

theorem teacher_forcing_decay_witness:
  "epoch_tfr 0 = 0.8 \<and> epoch_tfr 20 = 0.2 \<and> (0::int) \<le> 20 \<and> epoch_tfr 20 \<le> epoch_tfr 0 \<and>
   (\<exists>t'. run_epoch example_framework (-1) 3 example_trainer = Inr (Continue t') \<and>
      tfr t' = 0.71 \<and> teacher_forcing_ratio (model t') = 0.71 \<and>
      TrainTFR 0.71 \<in> set (stdout t'))"
  using teacher_forcing_decay[where e=0] teacher_forcing_decay[where e=20]
    teacher_forcing_decay[where e=3 and fw=example_framework and burning_epoch="-1"
      and t=example_trainer]
  by (simp add: trainer_defs example_trainer_def example_framework_def)

text \<open>
  C4. In an epoch of the burning phase, \<open>epoch <= burning_epoch\<close>, the loop of \<open>run\<close>
  first sets \<open>best_valid_loss\<close> to infinity, \<open>best_valid_acc\<close> to 0 and the patience counter
  to the configured maximum; training, evaluation and \<open>update\<close> of the epoch work on that
  state, so the outcome of the iteration does not depend on the three values held before.
\<close>

theorem burning_phase_reset:
  assumes "epoch \<le> burning_epoch"
  shows
   "best_valid_loss (eval_memory_bank (renew_records burning_epoch epoch t)) = PosInf \<and>
    best_valid_acc (eval_memory_bank (renew_records burning_epoch epoch t)) = 0 \<and>
    early_stopping_patience (eval_memory_bank (renew_records burning_epoch epoch t)) =
      trainer_early_stopping_patience t \<and>
    run_epoch fw burning_epoch epoch t =
      (if trainer_early_stopping_patience t = 0
       then Inr (Break (print EarlyStopping (renew_records burning_epoch epoch t)))
       else bind_result
         (train fw ((renew_records burning_epoch epoch t)\<lparr>tfr := epoch_tfr epoch\<rparr>))
         (\<lambda>(t2, train_loss).
          bind_result (evaluate fw False t2) (\<lambda>(t3, valid_loss, valid_acc, valid_acc_aux).
          bind_result (update valid_loss valid_acc t3) (\<lambda>t4.
            Inr (Continue (print (EpochValid valid_loss valid_acc)
              (print (EpochTrainLoss train_loss) (print (EpochTime (epoch + 1))
                (if task t4 = ''Multi'' then update_aux valid_acc_aux t4 else t4))))))))) \<and>
    run_epoch fw burning_epoch epoch (t\<lparr>eval_memory_bank := (eval_memory_bank t)
        \<lparr>best_valid_loss := x, best_valid_acc := y, early_stopping_patience := z\<rparr>\<rparr>) =
      run_epoch fw burning_epoch epoch t"
proof (intro conjI)
  show "best_valid_loss (eval_memory_bank (renew_records burning_epoch epoch t)) = PosInf"
    using assms by (simp add: renew_records_def Let_def print_def)
  show "best_valid_acc (eval_memory_bank (renew_records burning_epoch epoch t)) = 0"
    using assms by (simp add: renew_records_def Let_def print_def)
  show p: "early_stopping_patience (eval_memory_bank (renew_records burning_epoch epoch t)) =
      trainer_early_stopping_patience t"
    using assms by (simp add: renew_records_patience)
  show "run_epoch fw burning_epoch epoch t =
      (if trainer_early_stopping_patience t = 0
       then Inr (Break (print EarlyStopping (renew_records burning_epoch epoch t)))
       else bind_result
         (train fw ((renew_records burning_epoch epoch t)\<lparr>tfr := epoch_tfr epoch\<rparr>))
         (\<lambda>(t2, train_loss).
          bind_result (evaluate fw False t2) (\<lambda>(t3, valid_loss, valid_acc, valid_acc_aux).
          bind_result (update valid_loss valid_acc t3) (\<lambda>t4.
            Inr (Continue (print (EpochValid valid_loss valid_acc)
              (print (EpochTrainLoss train_loss) (print (EpochTime (epoch + 1))
                (if task t4 = ''Multi'' then update_aux valid_acc_aux t4 else t4)))))))))"
    unfolding run_epoch_def Let_def p by simp
  show "run_epoch fw burning_epoch epoch (t\<lparr>eval_memory_bank := (eval_memory_bank t)
        \<lparr>best_valid_loss := x, best_valid_acc := y, early_stopping_patience := z\<rparr>\<rparr>) =
      run_epoch fw burning_epoch epoch t"
    by (rule run_epoch_renew[OF renew_records_burning[OF assms]])
qed

theorem burning_phase_reset_witness:
  "(0::int) \<le> 0 \<and>
   best_valid_loss (eval_memory_bank (renew_records 0 0 example_trainer)) = PosInf \<and>
   best_valid_acc (eval_memory_bank (renew_records 0 0 example_trainer)) = 0 \<and>
   early_stopping_patience (eval_memory_bank (renew_records 0 0 example_trainer)) = 2 \<and>
   run_epoch example_framework 0 0 (example_trainer\<lparr>eval_memory_bank :=
       (eval_memory_bank example_trainer)
         \<lparr>best_valid_loss := Fin 7, best_valid_acc := 1, early_stopping_patience := 0\<rparr>\<rparr>) =
     run_epoch example_framework 0 0 example_trainer"
  using burning_phase_reset[where epoch=0 and burning_epoch=0 and t=example_trainer
      and fw=example_framework and x="Fin 7" and y=1 and z=0]
  by (simp add: example_trainer_def)

text \<open>
  C5. When the patience counter is 0 at the head of an iteration of the loop of \<open>run\<close>
  (after the reset of the burning phase, if the epoch is in it), the loop ends there: the
  result is the state at the loop head with the line of the early stop printed, and no
  training step was taken. In particular, past the burning phase, from a counter of at most 2
  and with no better validation loss announced, the loop ends within its first three
  iterations with the early stop: it never starts a fourth epoch.
\<close>

theorem early_stopping:
  "(early_stopping_patience (eval_memory_bank (renew_records b e t)) = 0 \<longrightarrow>
      run_loop fw b (e # es) t = Inr (print EarlyStopping (renew_records b e t)) \<and>
      world (print EarlyStopping (renew_records b e t)) = world t \<and>
      n_steps (train_memory_bank (print EarlyStopping (renew_records b e t))) =
        n_steps (train_memory_bank t)) \<and>
   (\<forall>t'. b < e1 \<and> b < e2 \<and> b < e3 \<and>
      0 \<le> early_stopping_patience (eval_memory_bank t) \<and>
      early_stopping_patience (eval_memory_bank t) \<le> 2 \<and>
      early_stopping_patience (eval_memory_bank t) \<le> trainer_early_stopping_patience t \<and>
      run_loop fw b (e1 # e2 # e3 # es) t = Inr t' \<and>
      BetterValidLoss \<notin> set (drop (length (stdout t)) (stdout t')) \<longrightarrow>
        run_loop fw b [e1, e2, e3] t = Inr t' \<and> last (stdout t') = EarlyStopping)"
proof (intro conjI allI impI)
  assume z: "early_stopping_patience (eval_memory_bank (renew_records b e t)) = 0"
  then have "run_epoch fw b e t = Inr (Break (print EarlyStopping (renew_records b e t)))"
    by (simp add: run_epoch_Break)
  then show "run_loop fw b (e # es) t = Inr (print EarlyStopping (renew_records b e t))"
    by (simp add: bind_result_def)
  show "world (print EarlyStopping (renew_records b e t)) = world t"
    by (simp add: renew_records_def Let_def print_def)
  show "n_steps (train_memory_bank (print EarlyStopping (renew_records b e t))) =
        n_steps (train_memory_bank t)"
    by (simp add: renew_records_def Let_def print_def)
next
  fix t'
  assume a: "b < e1 \<and> b < e2 \<and> b < e3 \<and>
      0 \<le> early_stopping_patience (eval_memory_bank t) \<and>
      early_stopping_patience (eval_memory_bank t) \<le> 2 \<and>
      early_stopping_patience (eval_memory_bank t) \<le> trainer_early_stopping_patience t \<and>
      run_loop fw b (e1 # e2 # e3 # es) t = Inr t' \<and>
      BetterValidLoss \<notin> set (drop (length (stdout t)) (stdout t'))"
  then have l: "run_loop fw b ([e1, e2, e3] @ es) t = Inr t'" by simp
  obtain out where out: "stdout t' = stdout t @ out"
    using keeps_run_loop[OF l] unfolding keeps_def by blast
  with a have q: "BetterValidLoss \<notin> set out" by simp
  have es: "\<forall>e \<in> set [e1, e2, e3]. b < e" using a by simp
  have lt: "early_stopping_patience (eval_memory_bank t) < int (length [e1, e2, e3])"
    using a by simp
  from a have p0: "0 \<le> early_stopping_patience (eval_memory_bank t)"
    and pm: "early_stopping_patience (eval_memory_bank t) \<le> trainer_early_stopping_patience t"
    by simp_all
  have "run_loop fw b [e1, e2, e3] t = Inr t' \<and> last (stdout t') = EarlyStopping"
    by (rule run_loop_quiet[OF es p0 pm lt l out q])
  then show "run_loop fw b [e1, e2, e3] t = Inr t'" and "last (stdout t') = EarlyStopping"
    by simp_all
qed

theorem early_stopping_witness:
  "early_stopping_patience (eval_memory_bank (renew_records 0 5
      (example_trainer\<lparr>eval_memory_bank :=
         (eval_memory_bank example_trainer)\<lparr>early_stopping_patience := 0\<rparr>\<rparr>))) = 0 \<and>
   early_stopping_patience (eval_memory_bank example_trainer) = 2 \<and>
   (\<exists>t'. run_loop example_framework (-1) [0, 1, 2, 3] example_trainer = Inr t' \<and>
      BetterValidLoss \<notin> set (drop (length (stdout example_trainer)) (stdout t')) \<and>
      run_loop example_framework (-1) [0, 1, 2] example_trainer = Inr t' \<and>
      last (stdout t') = EarlyStopping \<and>
      n_steps (train_memory_bank t') = 2)"
  using early_stopping[where b="-1" and ?e1.0=0 and ?e2.0=1 and ?e3.0=2 and es="[3]"
      and t=example_trainer and fw=example_framework]
  by (simp add: trainer_defs example_trainer_def example_framework_def)

text \<open>
  C6. For a batch in which every row of the prediction has its row of the reference and
  every index is in the vocabulary, \<open>matching\<close> returns the number of rows whose decoded
  strings are equal, a row being decoded as the specification says. Whatever follows the first
  end-of-sequence token of a row is not looked at; so the prediction \<open>a b <eos> c\<close> matches
  the reference \<open>a b <eos> d\<close>.
\<close>

theorem matching_exact_match:
  "(length prd \<le> length rf \<and> (\<forall>row \<in> set prd \<union> set rf. \<forall>t \<in> set row. t < length itos) \<longrightarrow>
      matching prd rf itos = Inr (matching_spec prd rf itos)) \<and>
   ((\<forall>t \<in> set xs. t < length itos \<and> itos ! t \<noteq> ''<eos>'') \<and>
    e < length itos \<and> itos ! e = ''<eos>'' \<longrightarrow>
      decode itos (xs @ e # ys) = Inr (map (\<lambda>t. itos ! t) xs)) \<and>
   matching [[1, 2, 0, 3]] [[1, 2, 0, 4]] [''<eos>'', ''a'', ''b'', ''c'', ''d''] = Inr 1"
proof (intro conjI impI)
  assume "length prd \<le> length rf \<and>
    (\<forall>row \<in> set prd \<union> set rf. \<forall>t \<in> set row. t < length itos)"
  then show "matching prd rf itos = Inr (matching_spec prd rf itos)"
    unfolding matching_def using matching_rows_in_range[of prd rf itos 0] by simp
next
  assume "(\<forall>t \<in> set xs. t < length itos \<and> itos ! t \<noteq> ''<eos>'') \<and>
    e < length itos \<and> itos ! e = ''<eos>''"
  then show "decode itos (xs @ e # ys) = Inr (map (\<lambda>t. itos ! t) xs)"
    by (intro decode_until_eos) simp_all
next
  show "matching [[1, 2, 0, 3]] [[1, 2, 0, 4]] [''<eos>'', ''a'', ''b'', ''c'', ''d''] = Inr 1"
    by (simp add: matching_def bind_result_def Let_def)
qed

theorem matching_exact_match_witness:
  "length [[1, 2, 0, 3], [3, 0], [1, 0]] \<le> length [[1, 2, 0, 4], [4, 0], [1, 0 :: nat]] \<and>
   matching [[1, 2, 0, 3], [3, 0], [1, 0]] [[1, 2, 0, 4], [4, 0], [1, 0]]
     [''<eos>'', ''a'', ''b'', ''c'', ''d''] = Inr 2 \<and>
   decode [''<eos>'', ''a'', ''b'', ''c'', ''d''] ([1, 2] @ 0 # [9]) = Inr [''a'', ''b'']"
  using matching_exact_match[where prd="[[1, 2, 0, 3], [3, 0], [1, 0]]"
      and rf="[[1, 2, 0, 4], [4, 0], [1, 0]]" and itos="[''<eos>'', ''a'', ''b'', ''c'', ''d'']"
      and xs="[1, 2]" and e=0 and ys="[9]"]
  by (simp add: matching_spec_def decode_spec_def)





end
